theory Spec2Isabelle
  imports Main
begin

section \<open>Values shared by the session modules\<close>

type_synonym address = string
type_synonym signature = string
type_synonym room_id = string

text \<open>
  Every \<open>throw\<close> of the modelled functions, and every runtime error the JavaScript
  engine raises in them, is a value of this type.
\<close>

datatype error =
    InvalidAddress              \<comment> \<open>\<open>ethers.getAddress\<close> throws\<close>
  | RPCNotInitialized           \<comment> \<open>\<open>getRPCClient\<close> throws\<close>
  | ConnectFailed               \<comment> \<open>\<open>ensureConnected\<close> rejects\<close>
  | SigningFailed               \<comment> \<open>the library's message builder rejects\<close>
  | TypeError                   \<comment> \<open>property read on \<open>undefined\<close> or \<open>null\<close>\<close>
  | ReferenceError string       \<comment> \<open>read of an identifier that is not in scope\<close>
  | RangeError                  \<comment> \<open>\<open>toISOString\<close> of a time outside the range of \<open>Date\<close>\<close>
  | NoPendingSession            \<comment> \<open>\<open>No pending app session for room\<close>\<close>
  | NotAllSignatures nat        \<comment> \<open>\<open>Not all signatures collected (have n/2)\<close>\<close>
  | WSNotInitialized            \<comment> \<open>\<open>RPC client WebSocket not initialized\<close>\<close>
  | WSNotConnected nat          \<comment> \<open>\<open>RPC client WebSocket not connected\<close>, with the state\<close>
  | Timeout                     \<comment> \<open>the 30 s timer of a submission fired\<close>
  | LedgerRejected string       \<comment> \<open>an \<open>err\<close> frame arrived\<close>
  | NoSessionId                 \<comment> \<open>\<open>App session created but no ID returned\<close>\<close>

subsection \<open>The JavaScript \<open>Map\<close> that collects signatures\<close>

text \<open>
  A \<open>Map\<close> keeps its keys in insertion order; \<open>set\<close> on a key that is present
  replaces the value in place, on a new key it appends. Only string keys occur.
\<close>

type_synonym ('k, 'v) js_map = "('k \<times> 'v) list"

primrec Map_set :: "'k \<Rightarrow> 'v \<Rightarrow> ('k, 'v) js_map \<Rightarrow> ('k, 'v) js_map" where
  "Map_set k v [] = [(k, v)]"
| "Map_set k v (p # ps) = (if fst p = k then (k, v) # ps else p # Map_set k v ps)"

definition Map_get :: "('k, 'v) js_map \<Rightarrow> 'k \<Rightarrow> 'v option" where
  "Map_get m k = map_of m k"

definition Map_size :: "('k, 'v) js_map \<Rightarrow> nat" where
  "Map_size m = length m"

definition Map_keys :: "('k, 'v) js_map \<Rightarrow> 'k list" where
  "Map_keys m = map fst m"

subsection \<open>Objects built by \<open>generateAppSessionMessage\<close>\<close>

text \<open>
  An allocation entry. \<open>participant\<close> is \<open>None\<close> where the code stores an
  \<open>undefined\<close> property there.
\<close>

record allocation =
  participant :: "address option"
  asset :: string
  amount :: string

record app_definition =
  protocol :: string
  participants :: "address list"
  weights :: "nat list"
  quorum :: nat
  challenge :: nat
  nonce :: int

text \<open>
  One entry of \<open>feeHistory\<close>. The three shapes the code writes are the three
  constructors; ISO renderings of a time are kept as the time itself.
\<close>

datatype fee_event =
    session_created int int address string bool string "string option" string
      \<comment> \<open>timestamp, timestampISO, serverAddress, feeCharged, feeUsed,
          player1Contribution, player2Contribution, totalPot\<close>
  | game_started int int address string bool string bool
      \<comment> \<open>timestamp, timestampISO, serverAddress, feeCharged, feeUsed, appSessionId,
          allSignaturesCollected\<close>
  | game_ended int int address "address option" string
      \<comment> \<open>timestamp, timestampISO, serverAddress, winner, serverPayout\<close>

record move =
  player :: address
  direction :: string
  timestamp :: int
  moveNumber :: nat

text \<open>
  \<open>initialSessionData\<close>; \<open>JSON.stringify\<close> of it is modelled by the record itself.
\<close>

record initial_session_data =
  i_gameType :: string
  i_version :: string
  i_protocol :: string
  i_betAmount :: string
  i_currency :: string
  i_totalPot :: string
  i_serverFee :: string
  i_feeHistory :: "fee_event list"
  i_startTime :: int
  i_createdAt :: int
  i_gameState :: string
  i_moves :: "move list"
  i_totalMoves :: nat
  i_movesByPlayer :: "(address \<times> nat) list"
  i_serverAddress :: address
  i_nonce :: int

record app_session_data =
  definition_ :: app_definition
  allocations :: "allocation list"
  session_data :: initial_session_data

text \<open>
  The request tuple \<open>[requestId, method, params, timestamp]\<close> that the library's
  \<open>createAppSessionMessage\<close> returns under \<open>req\<close>, and the parsed message.
\<close>

record request =
  req_id :: int
  req_method :: string
  req_params :: app_session_data
  req_timestamp :: int

record signed_message =
  req :: request
  sig :: "signature list"

text \<open>
  The object stored by \<open>setPendingSession\<close>. It has no \<open>participantB\<close> property:
  the only writer, \<open>generateAppSessionMessage\<close>, never sets one, so a read of
  \<open>pending.participantB\<close> gives \<open>undefined\<close>. \<open>serverSignature\<close> is
  \<open>parsedMessage.sig[0]\<close>, \<open>undefined\<close> when the array is empty.
\<close>

record pending_session =
  appSessionData :: app_session_data
  appDefinition :: app_definition
  participantA :: address
  serverAddress :: address
  requestToSign :: request
  pendingNonce :: int
  signatures :: "(address, signature) js_map"
  serverSignature :: "signature option"

definition participantB :: "pending_session \<Rightarrow> address option" where
  "participantB pending = None"

subsection \<open>The active session stored by \<open>setAppSession\<close>\<close>

record app_session =
  appSessionId :: string
  sessParticipantA :: address
  sessParticipantB :: "address option"
  sessServerAddress :: address
  betAmount :: string
  createdAt :: int
  moves :: "move list"
  feeHistory :: "fee_event list"

subsection \<open>Session storage\<close>

text \<open>The two module-level maps of the storage module, keyed by room.\<close>

record store =
  roomAppSessions :: "room_id \<rightharpoonup> app_session"
  pendingAppSessions :: "room_id \<rightharpoonup> pending_session"

definition getAppSession :: "store \<Rightarrow> room_id \<Rightarrow> app_session option" where
  "getAppSession st roomId = roomAppSessions st roomId"

definition hasAppSession :: "store \<Rightarrow> room_id \<Rightarrow> bool" where
  "hasAppSession st roomId = (roomAppSessions st roomId \<noteq> None)"

definition setAppSession :: "store \<Rightarrow> room_id \<Rightarrow> app_session \<Rightarrow> store" where
  "setAppSession st roomId sessionData =
     st\<lparr>roomAppSessions := (roomAppSessions st)(roomId \<mapsto> sessionData)\<rparr>"

definition deleteAppSession :: "store \<Rightarrow> room_id \<Rightarrow> store" where
  "deleteAppSession st roomId = st\<lparr>roomAppSessions := (roomAppSessions st)(roomId := None)\<rparr>"

definition getPendingSession :: "store \<Rightarrow> room_id \<Rightarrow> pending_session option" where
  "getPendingSession st roomId = pendingAppSessions st roomId"

definition setPendingSession :: "store \<Rightarrow> room_id \<Rightarrow> pending_session \<Rightarrow> store" where
  "setPendingSession st roomId sessionData =
     st\<lparr>pendingAppSessions := (pendingAppSessions st)(roomId \<mapsto> sessionData)\<rparr>"

definition deletePendingSession :: "store \<Rightarrow> room_id \<Rightarrow> store" where
  "deletePendingSession st roomId =
     st\<lparr>pendingAppSessions := (pendingAppSessions st)(roomId := None)\<rparr>"

definition hasPendingSession :: "store \<Rightarrow> room_id \<Rightarrow> bool" where
  "hasPendingSession st roomId = (pendingAppSessions st roomId \<noteq> None)"

section \<open>The settlement service and the other collaborators\<close>

text \<open>
  A frame that arrives on the socket after a submission was sent: a response
  \<open>{res: [requestId, method, params]}\<close>, an error \<open>{err: [requestId, code, message]}\<close>,
  or anything else (which the listeners ignore). \<open>params\<close> is \<open>None\<close> when the
  array has no third entry.
\<close>

record ack =
  app_session_id :: "string option"
  ack_appSessionId :: "string option"

datatype frame =
    Res int string "ack option"
  | Err int int string
  | Other

text \<open>
  The listener that each submission installs, run over the frames that arrive before
  the 30 s timer fires: a response is matched on its method name alone, any error
  frame rejects, and everything else is skipped. No deciding frame is the timeout.
\<close>

fun awaitResponse :: "string \<Rightarrow> frame list \<Rightarrow> error + ack option" where
  "awaitResponse m [] = Inl Timeout"
| "awaitResponse m (Res reqId method params # fs) =
     (if method = m then Inr params else awaitResponse m fs)"
| "awaitResponse m (Err reqId errorCode errorMsg # fs) = Inl (LedgerRejected errorMsg)"
| "awaitResponse m (Other # fs) = awaitResponse m fs"

text \<open>\<open>a || b\<close> on two optional strings: the first one that is defined and not empty.\<close>

definition js_or :: "string option \<Rightarrow> string option \<Rightarrow> string option" where
  "js_or a b =
     (case a of
        Some s \<Rightarrow> if s \<noteq> [] then Some s else (case b of Some t \<Rightarrow> if t \<noteq> [] then Some t else None | None \<Rightarrow> None)
      | None \<Rightarrow> (case b of Some t \<Rightarrow> if t \<noteq> [] then Some t else None | None \<Rightarrow> None))"

text \<open>
  The singleton RPC client as the session functions see it: the address of its session
  key (\<open>None\<close> when \<open>sessionKey\<close> is \<open>null\<close>) and the ready state of its socket
  when the function is entered (\<open>None\<close> when \<open>ws\<close> is \<open>null\<close>; 1 is \<open>OPEN\<close>).
\<close>

record rpc_client =
  sessionKey :: "string option"
  readyState :: "nat option"

subsection \<open>Objects built by \<open>closeAppSession\<close> and \<open>submitAppState\<close>\<close>

record player_info =
  pl_address :: "address option"
  pl_role :: string
  pl_contribution :: string
  pl_payout :: "string option"

record game_data =
  endCondition :: "string option"
  finalScores :: "(string \<times> int) list option"

record final_session_data =
  f_gameType :: string
  f_version :: string
  f_protocol :: string
  f_betAmount :: string
  f_currency :: string
  f_serverFee :: string
  f_feeHistory :: "fee_event list"
  f_startTime :: int
  f_endTime :: int
  f_duration :: int
  f_player1 :: player_info
  f_player2 :: player_info
  f_gameState :: string
  f_winner :: "address option"
  f_endCondition :: string
  f_finalScores :: "(string \<times> int) list"
  f_moves :: "move list"
  f_totalMoves :: nat
  f_movesByPlayer :: "(string \<times> nat) list"
  f_appSessionId :: string
  f_serverAddress :: address
  f_closedAt :: int

record close_data =
  c_app_session_id :: string
  c_allocations :: "allocation list"
  c_session_data :: final_session_data

record game_state_update =
  scores :: "(string \<times> int) list option"
  gameTime :: "int option"

record updated_session_data =
  u_gameType :: string
  u_version :: string
  u_protocol :: string
  u_betAmount :: string
  u_currency :: string
  u_totalPot :: string
  u_serverFee :: string
  u_feeHistory :: "fee_event list"
  u_startTime :: int
  u_updateTime :: int
  u_elapsedTime :: int
  u_player1 :: player_info
  u_player2 :: player_info
  u_gameState :: string
  u_currentScores :: "(string \<times> int) list"
  u_gameTime :: int
  u_moves :: "move list"
  u_totalMoves :: nat
  u_movesByPlayer :: "(string \<times> nat) list"
  u_appSessionId :: string
  u_serverAddress :: address
  u_lastUpdate :: int

record state_data =
  s_app_session_id :: string
  s_allocations :: "allocation list"
  s_session_data :: updated_session_data

subsection \<open>The environment of one invocation\<close>

text \<open>
  Everything a session function reads from outside the session store during one call:
  \<^item> \<open>getAddress\<close>: \<open>ethers.getAddress\<close>, \<open>None\<close> where it throws;
  \<^item> \<open>now k\<close>: the value of the \<open>k\<close>-th reading of the clock in the call;
  \<^item> \<open>rpcClient\<close>: the singleton, \<open>None\<close> when \<open>getRPCClient\<close> throws;
  \<^item> \<open>connect\<close>: whether \<open>connect()\<close> resolves, should \<open>ensureConnected\<close> call it;
  \<^item> the three message builders of the library, which sign with the session key,
    \<open>None\<close> where they reject;
  \<^item> \<open>times2\<close>: \<open>(parseFloat(s) * 2).toString()\<close>, a floating-point computation;
  \<^item> \<open>readyStateAtSend\<close>: \<open>rpcClient.ws.readyState\<close> at the check before the send,
    \<open>None\<close> when \<open>rpcClient.ws\<close> is \<open>null\<close>;
  \<^item> \<open>inbound\<close>: the frames that arrive within 30 s of the send, in order.
\<close>

record env =
  getAddress :: "string \<Rightarrow> address option"
  now :: "nat \<Rightarrow> int"
  rpcClient :: "rpc_client option"
  connect :: bool
  createAppSessionMessage :: "app_session_data \<Rightarrow> signed_message option"
  createCloseAppSessionMessage :: "close_data \<Rightarrow> string option"
  createSubmitAppStateMessage :: "state_data \<Rightarrow> string option"
  times2 :: "string \<Rightarrow> string"
  readyStateAtSend :: "nat option"
  inbound :: "frame list"

text \<open>
  \<open>ensureConnected\<close>: reconnects unless the socket is open; \<open>False\<close> is its
  rejection.
\<close>

definition ensureConnected :: "env \<Rightarrow> rpc_client \<Rightarrow> bool" where
  "ensureConnected env rpc = (if readyState rpc = Some 1 then True else connect env)"

section \<open>Session creation\<close>

text \<open>The object that \<open>generateAppSessionMessage\<close> returns.\<close>

record proposal =
  p_appSessionData :: app_session_data
  p_appDefinition :: app_definition
  p_participants :: "address list"
  p_requestToSign :: request

text \<open>
  The app definition of a new proposal: the player and then the server, the server
  alone carrying the voting weight.
\<close>

definition newAppDefinition :: "address \<Rightarrow> address \<Rightarrow> int \<Rightarrow> app_definition" where
  "newAppDefinition formattedA serverAddr nonceV =
     \<lparr>protocol = ''NitroRPC/0.4'',
      participants = [formattedA, serverAddr],
      weights = [0, 100],
      quorum = 100,
      challenge = 0,
      nonce = nonceV\<rparr>"

text \<open>
  \<open>initialSessionData\<close>. \<open>betAmount\<close> is the constant 0 of the function, so
  \<open>betAmountString\<close>, \<open>totalPot.toString()\<close> and \<open>serverFee\<close> are all \<open>'0'\<close>.
  The clock is read for the nonce first (reading 0), then four times here.
\<close>

definition newInitialSessionData :: "env \<Rightarrow> address \<Rightarrow> address \<Rightarrow> int \<Rightarrow> initial_session_data" where
  "newInitialSessionData env formattedA serverAddr nonceV =
     \<lparr>i_gameType = ''viper_duel'',
      i_version = ''1.0'',
      i_protocol = ''NitroRPC/0.4'',
      i_betAmount = ''0'',
      i_currency = ''usdc'',
      i_totalPot = ''0'',
      i_serverFee = ''0'',
      i_feeHistory =
        [session_created (now env 1) (now env 2) serverAddr ''0'' False ''0'' None ''0''],
      i_startTime = now env 3,
      i_createdAt = now env 4,
      i_gameState = ''created'',
      i_moves = [],
      i_totalMoves = 0,
      i_movesByPlayer = [(formattedA, 0)],
      i_serverAddress = serverAddr,
      i_nonce = nonceV\<rparr>"

definition newAppSessionData :: "env \<Rightarrow> address \<Rightarrow> address \<Rightarrow> int \<Rightarrow> app_session_data" where
  "newAppSessionData env formattedA serverAddr nonceV =
     \<lparr>definition_ = newAppDefinition formattedA serverAddr nonceV,
      allocations = [\<lparr>participant = Some formattedA, asset = ''usdc'', amount = ''0''\<rparr>],
      session_data = newInitialSessionData env formattedA serverAddr nonceV\<rparr>"

text \<open>
  \<open>generateAppSessionMessage(roomId, participantA)\<close>. The address is canonicalised
  before the store is looked at; a stored pending session is returned as it is; otherwise
  a proposal is built with the clock as its nonce, signed by the server and stored with an
  empty signature map. Every exception is logged and thrown again.
\<close>

definition generateAppSessionMessage ::
  "env \<Rightarrow> store \<Rightarrow> room_id \<Rightarrow> string \<Rightarrow> (error + proposal) \<times> store" where
  "generateAppSessionMessage env st roomId playerA =
     (case getAddress env playerA of
        None \<Rightarrow> (Inl InvalidAddress, st)
      | Some formattedA \<Rightarrow>
          (case getPendingSession st roomId of
             Some pending \<Rightarrow>
               (Inr \<lparr>p_appSessionData = appSessionData pending,
                     p_appDefinition = appDefinition pending,
                     p_participants = [participantA pending, serverAddress pending],
                     p_requestToSign = requestToSign pending\<rparr>, st)
           | None \<Rightarrow>
               (case rpcClient env of
                  None \<Rightarrow> (Inl RPCNotInitialized, st)
                | Some rpc \<Rightarrow>
                    if \<not> ensureConnected env rpc then (Inl ConnectFailed, st)
                    else
                      (case sessionKey rpc of
                         None \<Rightarrow> (Inl TypeError, st)
                       | Some keyAddress \<Rightarrow>
                           (case getAddress env keyAddress of
                              None \<Rightarrow> (Inl InvalidAddress, st)
                            | Some serverAddr \<Rightarrow>
                                let nonceV = now env 0;
                                    appDef = newAppDefinition formattedA serverAddr nonceV;
                                    appData = newAppSessionData env formattedA serverAddr nonceV
                                in (case createAppSessionMessage env appData of
                                      None \<Rightarrow> (Inl SigningFailed, st)
                                    | Some parsedMessage \<Rightarrow>
                                        (Inr \<lparr>p_appSessionData = appData,
                                              p_appDefinition = appDef,
                                              p_participants = [formattedA, serverAddr],
                                              p_requestToSign = req parsedMessage\<rparr>,
                                         setPendingSession st roomId
                                           \<lparr>appSessionData = appData,
                                            appDefinition = appDef,
                                            participantA = formattedA,
                                            serverAddress = serverAddr,
                                            requestToSign = req parsedMessage,
                                            pendingNonce = nonceV,
                                            signatures = [],
                                            serverSignature =
                                              (case sig parsedMessage of
                                                 [] \<Rightarrow> None
                                               | s # rest \<Rightarrow> Some s)\<rparr>)))))))"

section \<open>Signature collection\<close>

text \<open>
  \<open>addAppSessionSignature(roomId, playerEOA, signature)\<close>. The address
  canonicaliser \<open>ethers.getAddress\<close> is read from the environment. The argument \<open>signature\<close> is \<open>None\<close> for a value that is
  not a string; the empty string is falsy and fails the first test with it. A length
  other than 132 is only logged, and the signature is stored all the same.
\<close>

definition addAppSessionSignature ::
  "env \<Rightarrow> store \<Rightarrow> room_id \<Rightarrow> string \<Rightarrow> string option \<Rightarrow> (error + bool) \<times> store" where
  "addAppSessionSignature env st roomId playerEOA signature =
     (case getPendingSession st roomId of
        None \<Rightarrow> (Inr False, st)
      | Some pending \<Rightarrow>
          (case getAddress env playerEOA of
             None \<Rightarrow> (Inl InvalidAddress, st)
           | Some formattedAddress \<Rightarrow>
               (case signature of
                  None \<Rightarrow> (Inr False, st)
                | Some s \<Rightarrow>
                    if s = [] then (Inr False, st)
                    else if take 2 s \<noteq> ''0x'' then (Inr False, st)
                    else
                      let pending' = pending\<lparr>signatures :=
                                       Map_set formattedAddress s (signatures pending)\<rparr>
                      in (Inr (Map_size (signatures pending') = 2),
                          setPendingSession st roomId pending'))))"

text \<open>
  A sequence of calls of \<open>addAppSessionSignature\<close> for one room, each with its caller's
  address and signature; a call that returns false or throws leaves the next one to run.
\<close>

fun addSignatures :: "env \<Rightarrow> store \<Rightarrow> room_id \<Rightarrow> (string \<times> string option) list \<Rightarrow> store" where
  "addSignatures env st roomId [] = st"
| "addSignatures env st roomId ((a, s) # calls) =
     addSignatures env (snd (addAppSessionSignature env st roomId a s)) roomId calls"

text \<open>
  The state of a room's signature map that the calls of participants preserve: the
  definition stays the one given, the keys are distinct (as the keys of a \<open>Map\<close> are)
  and all of them are participants.
\<close>

definition sig_inv :: "app_definition \<Rightarrow> store \<Rightarrow> room_id \<Rightarrow> bool" where
  "sig_inv d st roomId =
     (case getPendingSession st roomId of
        None \<Rightarrow> False
      | Some p \<Rightarrow> appDefinition p = d \<and> distinct (Map_keys (signatures p)) \<and>
                  set (Map_keys (signatures p)) \<subseteq> set (participants d))"

text \<open>
  The envelope \<open>{req, sig}\<close> that \<open>createAppSessionWithSignatures\<close> sends. An entry
  of \<open>sig\<close> is \<open>None\<close> where the code puts \<open>undefined\<close> (\<open>null\<close> once
  \<open>JSON.stringify\<close> has run).
\<close>

record envelope =
  e_req :: request
  e_sig :: "signature option list"

text \<open>
  The signature array of the envelope: the signature stored under \<open>participantA\<close>,
  the one stored under \<open>participantB\<close>, and the server's. The keys of the map are
  strings, so the lookup of an \<open>undefined\<close> \<open>participantB\<close> finds nothing.
\<close>

definition envelopeSignatures :: "pending_session \<Rightarrow> signature option list" where
  "envelopeSignatures pending =
     (let sigA = Map_get (signatures pending) (participantA pending);
          sigB = (case participantB pending of
                    None \<Rightarrow> None
                  | Some b \<Rightarrow> Map_get (signatures pending) b);
          sigServer = serverSignature pending
      in [sigA, sigB, sigServer])"

text \<open>
  The session that is stored once the service has acknowledged, given the session id
  and \<open>betAmount\<close> (the amount of the first allocation). The clock is read twice.
\<close>

definition newAppSession :: "env \<Rightarrow> pending_session \<Rightarrow> string \<Rightarrow> string \<Rightarrow> app_session" where
  "newAppSession env pending sid bet =
     \<lparr>appSessionId = sid,
      sessParticipantA = participantA pending,
      sessParticipantB = participantB pending,
      sessServerAddress = serverAddress pending,
      betAmount = bet,
      createdAt = now env 0,
      moves = [],
      feeHistory =
        [session_created (req_id (requestToSign pending)) (req_id (requestToSign pending))
           (serverAddress pending) ''0'' False bet (Some bet) (times2 env bet),
         game_started (now env 1) (now env 2) (serverAddress pending) ''0'' True sid True]\<rparr>"

text \<open>
  \<open>createAppSessionWithSignatures(roomId)\<close>, returning the result, the store and the
  envelopes sent on the socket. A missing pending session and a signature count other
  than 2 throw before the \<open>try\<close>; everything after is thrown again by the \<open>catch\<close>.
  \<open>new Date(t).toISOString()\<close> throws outside \<open>\<plusminus>8.64e15\<close> ms.
\<close>

definition createAppSessionWithSignatures ::
  "env \<Rightarrow> store \<Rightarrow> room_id \<Rightarrow> (error + string) \<times> store \<times> envelope list" where
  "createAppSessionWithSignatures env st roomId =
     (case getPendingSession st roomId of
        None \<Rightarrow> (Inl NoPendingSession, st, [])
      | Some pending \<Rightarrow>
          if Map_size (signatures pending) \<noteq> 2
          then (Inl (NotAllSignatures (Map_size (signatures pending))), st, [])
          else
            (case rpcClient env of
               None \<Rightarrow> (Inl RPCNotInitialized, st, [])
             | Some rpc \<Rightarrow>
                 if \<not> ensureConnected env rpc then (Inl ConnectFailed, st, [])
                 else
                   let completeRequest =
                         \<lparr>e_req = requestToSign pending, e_sig = envelopeSignatures pending\<rparr>
                   in (case readyStateAtSend env of
                         None \<Rightarrow> (Inl WSNotInitialized, st, [])
                       | Some rs \<Rightarrow>
                           if rs \<noteq> 1 then (Inl (WSNotConnected rs), st, [])
                           else
                             (case awaitResponse ''create_app_session'' (inbound env) of
                                Inl er \<Rightarrow> (Inl er, st, [completeRequest])
                              | Inr None \<Rightarrow> (Inl TypeError, st, [completeRequest])
                              | Inr (Some response) \<Rightarrow>
                                  (case js_or (app_session_id response) (ack_appSessionId response) of
                                     None \<Rightarrow> (Inl NoSessionId, st, [completeRequest])
                                   | Some sid \<Rightarrow>
                                       (case allocations (appSessionData pending) of
                                          [] \<Rightarrow> (Inl TypeError, st, [completeRequest])
                                        | a # rest \<Rightarrow>
                                            if \<bar>req_id (requestToSign pending)\<bar> > 8640000000000000
                                            then (Inl RangeError, st, [completeRequest])
                                            else
                                              (Inr sid,
                                               deletePendingSession
                                                 (setAppSession st roomId
                                                    (newAppSession env pending sid (amount a)))
                                                 roomId,
                                               [completeRequest])))))))"

text \<open>
  \<open>addMoveToSession(roomId, playerEOA, direction, timestamp)\<close>: the move gets the number
  \<open>moves.length + 1\<close> and is pushed. The lookup of the session comes first, so an
  unknown room returns before the address is canonicalised.
\<close>

definition addMoveToSession ::
  "env \<Rightarrow> store \<Rightarrow> room_id \<Rightarrow> string \<Rightarrow> string \<Rightarrow> int \<Rightarrow> (error + unit) \<times> store" where
  "addMoveToSession env st roomId playerEOA dir ts =
     (case getAppSession st roomId of
        None \<Rightarrow> (Inr (), st)
      | Some session \<Rightarrow>
          (case getAddress env playerEOA of
             None \<Rightarrow> (Inl InvalidAddress, st)
           | Some a \<Rightarrow>
               (Inr (),
                setAppSession st roomId
                  (session\<lparr>moves := moves session @
                     [\<lparr>player = a, direction = dir, timestamp = ts,
                       moveNumber = length (moves session) + 1\<rparr>]\<rparr>))))"

section \<open>Checkpoint and close\<close>

text \<open>
  The number of moves of a player, \<open>moves.filter(m => m.player === p).length\<close>, and
  the property key a possibly \<open>undefined\<close> address turns into. \<open>movesByPlayer\<close> is
  an object literal with two computed keys: the second replaces the first when both keys
  are the same string.
\<close>

definition movesOf :: "move list \<Rightarrow> address option \<Rightarrow> nat" where
  "movesOf ms p = (case p of None \<Rightarrow> 0 | Some a \<Rightarrow> length (filter (\<lambda>m. player m = a) ms))"

definition keyOf :: "address option \<Rightarrow> string" where
  "keyOf p = (case p of None \<Rightarrow> ''undefined'' | Some a \<Rightarrow> a)"

definition movesByPlayer :: "app_session \<Rightarrow> (string \<times> nat) list" where
  "movesByPlayer session =
     Map_set (keyOf (sessParticipantB session)) (movesOf (moves session) (sessParticipantB session))
       [(sessParticipantA session, movesOf (moves session) (Some (sessParticipantA session)))]"

subsection \<open>\<open>submitAppState\<close>\<close>

definition updatedSessionData :: "env \<Rightarrow> app_session \<Rightarrow> game_state_update \<Rightarrow> updated_session_data" where
  "updatedSessionData env session gameStateUpdate =
     \<lparr>u_gameType = ''viper_duel'',
      u_version = ''1.0'',
      u_protocol = ''NitroRPC/0.4'',
      u_betAmount = betAmount session,
      u_currency = ''usdc'',
      u_totalPot = times2 env (betAmount session),
      u_serverFee = ''0'',
      u_feeHistory = feeHistory session,
      u_startTime = createdAt session,
      u_updateTime = now env 0,
      u_elapsedTime = now env 1 - createdAt session,
      u_player1 = \<lparr>pl_address = Some (sessParticipantA session), pl_role = ''host'',
                   pl_contribution = betAmount session, pl_payout = None\<rparr>,
      u_player2 = \<lparr>pl_address = sessParticipantB session, pl_role = ''guest'',
                   pl_contribution = betAmount session, pl_payout = None\<rparr>,
      u_gameState = ''playing'',
      u_currentScores = (case scores gameStateUpdate of None \<Rightarrow> [] | Some sc \<Rightarrow> sc),
      u_gameTime = (case gameTime gameStateUpdate of None \<Rightarrow> 0 | Some t \<Rightarrow> t),
      u_moves = moves session,
      u_totalMoves = length (moves session),
      u_movesByPlayer = movesByPlayer session,
      u_appSessionId = appSessionId session,
      u_serverAddress = sessServerAddress session,
      u_lastUpdate = now env 2\<rparr>"

text \<open>The allocations of a checkpoint: every committed balance as it was.\<close>

definition stateData :: "env \<Rightarrow> app_session \<Rightarrow> game_state_update \<Rightarrow> state_data" where
  "stateData env session gameStateUpdate =
     \<lparr>s_app_session_id = appSessionId session,
      s_allocations =
        [\<lparr>participant = Some (sessParticipantA session), asset = ''usdc'',
          amount = betAmount session\<rparr>,
         \<lparr>participant = sessParticipantB session, asset = ''usdc'',
          amount = betAmount session\<rparr>,
         \<lparr>participant = Some (sessServerAddress session), asset = ''usdc'', amount = ''0''\<rparr>],
      s_session_data = updatedSessionData env session gameStateUpdate\<rparr>"

text \<open>
  The body of the \<open>try\<close> of \<open>submitAppState\<close>: its outcome and the messages it sent.
\<close>

definition submitAppState_try ::
  "env \<Rightarrow> app_session \<Rightarrow> game_state_update \<Rightarrow> (error + unit) \<times> string list" where
  "submitAppState_try env session gameStateUpdate =
     (case rpcClient env of
        None \<Rightarrow> (Inl RPCNotInitialized, [])
      | Some rpc \<Rightarrow>
          if \<not> ensureConnected env rpc then (Inl ConnectFailed, [])
          else
            (case createSubmitAppStateMessage env (stateData env session gameStateUpdate) of
               None \<Rightarrow> (Inl SigningFailed, [])
             | Some stateMessage \<Rightarrow>
                 (case readyStateAtSend env of
                    None \<Rightarrow> (Inl WSNotInitialized, [])
                  | Some rs \<Rightarrow>
                      if rs \<noteq> 1 then (Inl (WSNotConnected rs), [])
                      else
                        (case awaitResponse ''submit_app_state'' (inbound env) of
                           Inl er \<Rightarrow> (Inl er, [stateMessage])
                         | Inr params \<Rightarrow> (Inr (), [stateMessage])))))"

text \<open>
  \<open>submitAppState(roomId, gameStateUpdate)\<close>: nothing to do without a session; the
  \<open>catch\<close> logs the error of the body and does not throw it again.
\<close>

definition submitAppState ::
  "env \<Rightarrow> store \<Rightarrow> room_id \<Rightarrow> game_state_update \<Rightarrow> (error + unit) \<times> store \<times> string list" where
  "submitAppState env st roomId gameStateUpdate =
     (case getAppSession st roomId of
        None \<Rightarrow> (Inr (), st, [])
      | Some session \<Rightarrow>
          (case submitAppState_try env session gameStateUpdate of
             (Inl er, sent) \<Rightarrow> (Inr (), st, sent)
           | (Inr u, sent) \<Rightarrow> (Inr (), st, sent)))"

subsection \<open>\<open>closeAppSession\<close>\<close>

text \<open>
  \<open>winnerEOA ? ethers.getAddress(winnerEOA) : null\<close>: \<open>null\<close> and the empty string
  are falsy.
\<close>

definition formatWinner :: "env \<Rightarrow> string option \<Rightarrow> error + address option" where
  "formatWinner env winnerEOA =
     (case winnerEOA of
        None \<Rightarrow> Inr None
      | Some w \<Rightarrow>
          if w = [] then Inr None
          else (case getAddress env w of None \<Rightarrow> Inl InvalidAddress | Some a \<Rightarrow> Inr (Some a)))"

text \<open>
  The \<open>payout\<close> of a player in \<open>finalSessionData\<close>: the bet on a tie; for the winner
  \<open>totalPot.toString()\<close>, where no \<open>totalPot\<close> is in scope of \<open>closeAppSession\<close>
  (the only one is a local constant of \<open>generateAppSessionMessage\<close>), so reading it
  throws; \<open>'0'\<close> for anyone else.
\<close>

definition payout :: "app_session \<Rightarrow> address option \<Rightarrow> address option \<Rightarrow> error + string" where
  "payout session formattedWinner who =
     (case formattedWinner of
        None \<Rightarrow> Inr (betAmount session)
      | Some w \<Rightarrow> if Some w = who then Inl (ReferenceError ''totalPot'') else Inr ''0'')"

definition finalSessionData ::
  "env \<Rightarrow> app_session \<Rightarrow> address option \<Rightarrow> game_data \<Rightarrow> error + final_session_data" where
  "finalSessionData env session formattedWinner gameData =
     (case payout session formattedWinner (Some (sessParticipantA session)) of
        Inl er \<Rightarrow> Inl er
      | Inr payout1 \<Rightarrow>
          (case payout session formattedWinner (sessParticipantB session) of
             Inl er \<Rightarrow> Inl er
           | Inr payout2 \<Rightarrow>
               Inr \<lparr>f_gameType = ''viper_duel'',
                    f_version = ''1.0'',
                    f_protocol = ''NitroRPC/0.4'',
                    f_betAmount = betAmount session,
                    f_currency = ''usdc'',
                    f_serverFee = ''0'',
                    f_feeHistory = feeHistory session @
                      [game_ended (now env 0) (now env 1) (sessServerAddress session)
                         formattedWinner ''0''],
                    f_startTime = createdAt session,
                    f_endTime = now env 2,
                    f_duration = now env 3 - createdAt session,
                    f_player1 = \<lparr>pl_address = Some (sessParticipantA session), pl_role = ''host'',
                                 pl_contribution = betAmount session, pl_payout = Some payout1\<rparr>,
                    f_player2 = \<lparr>pl_address = sessParticipantB session, pl_role = ''guest'',
                                 pl_contribution = betAmount session, pl_payout = Some payout2\<rparr>,
                    f_gameState = ''closed'',
                    f_winner = formattedWinner,
                    f_endCondition =
                      (case js_or (endCondition gameData) None of
                         Some c \<Rightarrow> c
                       | None \<Rightarrow> if formattedWinner \<noteq> None then ''collision'' else ''tie''),
                    f_finalScores = (case finalScores gameData of None \<Rightarrow> [] | Some sc \<Rightarrow> sc),
                    f_moves = moves session,
                    f_totalMoves = length (moves session),
                    f_movesByPlayer = movesByPlayer session,
                    f_appSessionId = appSessionId session,
                    f_serverAddress = sessServerAddress session,
                    f_closedAt = now env 4\<rparr>))"

text \<open>
  The fund distribution of the close message: the array literal of the tie branch and
  the array literal of the winner branch, both without an element.
\<close>

definition closeAllocations :: "address option \<Rightarrow> allocation list" where
  "closeAllocations formattedWinner = (if formattedWinner = None then [] else [])"

definition closeData ::
  "env \<Rightarrow> app_session \<Rightarrow> address option \<Rightarrow> game_data \<Rightarrow> error + close_data" where
  "closeData env session formattedWinner gameData =
     (case finalSessionData env session formattedWinner gameData of
        Inl er \<Rightarrow> Inl er
      | Inr fsd \<Rightarrow>
          Inr \<lparr>c_app_session_id = appSessionId session,
               c_allocations = closeAllocations formattedWinner,
               c_session_data = fsd\<rparr>)"

text \<open>
  The log of the first five moves renders each timestamp with
  \<open>new Date(move.timestamp).toISOString()\<close>, which throws outside
  \<open>\<plusminus>8.64e15\<close> ms.
\<close>

definition sampleMovesThrow :: "move list \<Rightarrow> bool" where
  "sampleMovesThrow ms = list_ex (\<lambda>m. \<bar>timestamp m\<bar> > 8640000000000000) (take 5 ms)"

text \<open>
  \<open>closeAppSession(roomId, winnerEOA, gameData)\<close>, returning the result, the store and
  the messages sent on the socket. Without a stored session it returns at once; every
  exception of the rest is logged and thrown again; the session is deleted after the
  acknowledgment.
\<close>

definition closeAppSession ::
  "env \<Rightarrow> store \<Rightarrow> room_id \<Rightarrow> string option \<Rightarrow> game_data
     \<Rightarrow> (error + unit) \<times> store \<times> string list" where
  "closeAppSession env st roomId winnerEOA gameData =
     (case getAppSession st roomId of
        None \<Rightarrow> (Inr (), st, [])
      | Some session \<Rightarrow>
          (case rpcClient env of
             None \<Rightarrow> (Inl RPCNotInitialized, st, [])
           | Some rpc \<Rightarrow>
               if \<not> ensureConnected env rpc then (Inl ConnectFailed, st, [])
               else
                 (case formatWinner env winnerEOA of
                    Inl er \<Rightarrow> (Inl er, st, [])
                  | Inr formattedWinner \<Rightarrow>
                      (case closeData env session formattedWinner gameData of
                         Inl er \<Rightarrow> (Inl er, st, [])
                       | Inr cd \<Rightarrow>
                           if sampleMovesThrow (f_moves (c_session_data cd))
                           then (Inl RangeError, st, [])
                           else
                           (case createCloseAppSessionMessage env cd of
                              None \<Rightarrow> (Inl SigningFailed, st, [])
                            | Some closeMessage \<Rightarrow>
                                (case readyStateAtSend env of
                                   None \<Rightarrow> (Inl WSNotInitialized, st, [])
                                 | Some rs \<Rightarrow>
                                     if rs \<noteq> 1 then (Inl (WSNotConnected rs), st, [])
                                     else
                                       (case awaitResponse ''close_app_session'' (inbound env) of
                                          Inl er \<Rightarrow> (Inl er, st, [closeMessage])
                                        | Inr params \<Rightarrow>
                                            (Inr (), deleteAppSession st roomId,
                                             [closeMessage]))))))))"

section \<open>The RPC client and its pending requests\<close>

datatype ws_status = CONNECTED | CONNECTING | DISCONNECTED | AUTHENTICATING | AUTH_FAILED

text \<open>How the promise of a request was settled.\<close>

datatype settlement = Resolved "string option" | Rejected string

text \<open>
  A parsed inbound message as \<open>handleMessage\<close> reads it: the request id
  (\<open>message.requestId || message.res?.[0]\<close>), whether its method is the error method,
  \<open>message.params?.error\<close>, and the result (\<open>message.params || message.res?.[2]\<close>).
\<close>

record rpc_message =
  m_requestId :: "nat option"
  m_isError :: bool
  m_error :: "string option"
  m_result :: "string option"

text \<open>
  The client: its status, whether its socket exists and is open, the keys of
  \<open>pendingRequests\<close> (each bound to the \<open>resolve\<close> and \<open>reject\<close> of one promise) in
  insertion order, the next request id, the promises settled so far, and the frames sent.
\<close>

record client =
  status :: ws_status
  wsOpen :: bool
  pendingRequests :: "nat list"
  nextRequestId :: nat
  settled :: "(nat \<times> settlement) list"
  outbox :: "string list"

definition setStatus :: "client \<Rightarrow> ws_status \<Rightarrow> client" where
  "setStatus c newStatus = (if status c \<noteq> newStatus then c\<lparr>status := newStatus\<rparr> else c)"

text \<open>The listener of the socket's \<open>close\<close> event, installed by \<open>connect\<close>.\<close>

definition onClose :: "client \<Rightarrow> client" where
  "onClose c = setStatus c DISCONNECTED"

definition disconnect :: "client \<Rightarrow> client" where
  "disconnect c = setStatus (c\<lparr>wsOpen := False\<rparr>) DISCONNECTED"

text \<open>
  \<open>sendRequest(method, params)\<close>, given the signed request (\<open>None\<close> when signing
  throws): it returns the id under which the request is pending. A closed socket throws
  before an id is taken; a signing error rejects the promise of the id just taken.
\<close>

definition sendRequest :: "client \<Rightarrow> string option \<Rightarrow> (string + nat) \<times> client" where
  "sendRequest c signedRequest =
     (if \<not> wsOpen c then (Inl ''WebSocket not connected'', c)
      else
        let requestId = nextRequestId c;
            c1 = c\<lparr>nextRequestId := requestId + 1\<rparr>
        in (case signedRequest of
              None \<Rightarrow>
                (Inr requestId,
                 c1\<lparr>pendingRequests := removeAll requestId (pendingRequests c1),
                    settled := settled c1 @ [(requestId, Rejected ''signing failed'')]\<rparr>)
            | Some frame \<Rightarrow>
                (Inr requestId,
                 c1\<lparr>pendingRequests :=
                      (if requestId \<in> set (pendingRequests c1) then pendingRequests c1
                       else pendingRequests c1 @ [requestId]),
                    outbox := outbox c1 @ [frame]\<rparr>)))"

text \<open>The timer that \<open>sendRequest\<close> starts for a request, firing after 10 s.\<close>

definition onTimeout :: "client \<Rightarrow> nat \<Rightarrow> client" where
  "onTimeout c requestId =
     (if requestId \<in> set (pendingRequests c)
      then c\<lparr>pendingRequests := removeAll requestId (pendingRequests c),
             settled := settled c @ [(requestId, Rejected ''Request timeout'')]\<rparr>
      else c)"

text \<open>
  \<open>handleMessage\<close>: a message whose id is pending settles that request and removes
  it; any other message changes nothing here.
\<close>

definition handleMessage :: "client \<Rightarrow> rpc_message \<Rightarrow> client" where
  "handleMessage c message =
     (case m_requestId message of
        None \<Rightarrow> c
      | Some requestId \<Rightarrow>
          if requestId \<in> set (pendingRequests c)
          then c\<lparr>pendingRequests := removeAll requestId (pendingRequests c),
                 settled := settled c @
                   [(requestId,
                     if m_isError message
                     then Rejected (''RPC Error: '' @
                            (case js_or (m_error message) None of
                               None \<Rightarrow> ''Unknown error''
                             | Some msg \<Rightarrow> msg))
                     else Resolved (m_result message))]\<rparr>
          else c)"

text \<open>The client that the constructor builds.\<close>

definition newClient :: client where
  "newClient = \<lparr>status = DISCONNECTED, wsOpen = False, pendingRequests = [],
                nextRequestId = 1, settled = [], outbox = []\<rparr>"

section \<open>A run of the protocol on concrete values\<close>

text \<open>
  Three checksummed addresses (the player, the server's session key and a third party),
  on which \<open>ethers.getAddress\<close> is the identity, and 132-character signatures.
\<close>

definition addrA :: address where
  "addrA = ''0x5aAeb6053F3E94C9b9A09f33669435E7Ef1BeAed''"

definition addrS :: address where
  "addrS = ''0xfB6916095ca1df60bB79Ce92cE3Ea74c37c5d359''"

definition addrX :: address where
  "addrX = ''0xdbF03B407c01E7cD3CBea99509d93f8DDDC8C6FB''"

definition addrY :: address where
  "addrY = ''0xD1220A0cf47c7B9Be7A2E6BA89F429762e7b9aDb''"

definition sigOf :: "char \<Rightarrow> signature" where
  "sigOf c = ''0x'' @ replicate 130 c"

text \<open>
  An environment: a connected client, a clock that stands at one instant, a builder
  that signs with the server's signature, and no inbound frame.
\<close>

definition env0 :: env where
  "env0 =
     \<lparr>getAddress = (\<lambda>s. if s \<in> {addrA, addrS, addrX, addrY} then Some s else None),
      now = (\<lambda>k. 1700000000000),
      rpcClient = Some \<lparr>sessionKey = Some addrS, readyState = Some 1\<rparr>,
      connect = True,
      createAppSessionMessage =
        (\<lambda>d. Some \<lparr>req = \<lparr>req_id = 1700000000001, req_method = ''create_app_session'',
                            req_params = d, req_timestamp = 1700000000002\<rparr>,
                     sig = [sigOf CHR ''5'']\<rparr>),
      createCloseAppSessionMessage = (\<lambda>d. Some ''close''),
      createSubmitAppStateMessage = (\<lambda>d. Some ''state''),
      times2 = (\<lambda>s. if s = ''0'' then ''0'' else ''NaN''),
      readyStateAtSend = Some 1,
      inbound = []\<rparr>"

definition store0 :: store where
  "store0 = \<lparr>roomAppSessions = Map.empty, pendingAppSessions = Map.empty\<rparr>"

text \<open>The pending session of the room after the proposal, and after each signature.\<close>

definition pending1 :: pending_session where
  "pending1 =
     \<lparr>appSessionData = newAppSessionData env0 addrA addrS 1700000000000,
      appDefinition = newAppDefinition addrA addrS 1700000000000,
      participantA = addrA,
      serverAddress = addrS,
      requestToSign =
        \<lparr>req_id = 1700000000001, req_method = ''create_app_session'',
         req_params = newAppSessionData env0 addrA addrS 1700000000000,
         req_timestamp = 1700000000002\<rparr>,
      pendingNonce = 1700000000000,
      signatures = [],
      serverSignature = Some (sigOf CHR ''5'')\<rparr>"

definition store1 :: store where
  "store1 = store0\<lparr>pendingAppSessions := [''room-1'' \<mapsto> pending1]\<rparr>"

definition store2 :: store where
  "store2 = store0\<lparr>pendingAppSessions :=
              [''room-1'' \<mapsto> pending1\<lparr>signatures := [(addrA, sigOf CHR ''a'')]\<rparr>]\<rparr>"

definition store3 :: store where
  "store3 = store0\<lparr>pendingAppSessions :=
              [''room-1'' \<mapsto> pending1\<lparr>signatures :=
                 [(addrA, sigOf CHR ''a''), (addrX, sigOf CHR ''b'')]\<rparr>]\<rparr>"

text \<open>The acknowledgment of the service, and the session it activates.\<close>

definition ackS1 :: frame where
  "ackS1 = Res 7 ''create_app_session'' (Some \<lparr>app_session_id = Some ''S1'', ack_appSessionId = None\<rparr>)"

definition session1 :: app_session where
  "session1 =
     \<lparr>appSessionId = ''S1'',
      sessParticipantA = addrA,
      sessParticipantB = None,
      sessServerAddress = addrS,
      betAmount = ''0'',
      createdAt = 1700000000000,
      moves = [],
      feeHistory =
        [session_created 1700000000001 1700000000001 addrS ''0'' False ''0'' (Some ''0'') ''0'',
         game_started 1700000000000 1700000000000 addrS ''0'' True ''S1'' True]\<rparr>"

definition store4 :: store where
  "store4 = store0\<lparr>roomAppSessions := [''room-1'' \<mapsto> session1]\<rparr>"

text \<open>
  Later environments: one in which the service acknowledges with the session id
  \<open>S1\<close>, one in which it answers with an error frame, one in which it acknowledges a
  close, and one at a later instant with no client at all.
\<close>

definition envAck :: env where
  "envAck = env0\<lparr>inbound := [Other, ackS1]\<rparr>"

definition envRejected :: env where
  "envRejected = env0\<lparr>inbound := [Err 7 1 ''rejected'']\<rparr>"

definition envCloseAck :: env where
  "envCloseAck = env0\<lparr>inbound := [Res 9 ''close_app_session'' None]\<rparr>"

definition envLater :: env where
  "envLater = env0\<lparr>now := (\<lambda>k. 1800000000000), rpcClient := None\<rparr>"

definition envelope1 :: envelope where
  "envelope1 = \<lparr>e_req = requestToSign pending1,
                 e_sig = [Some (sigOf CHR ''a''), None, Some (sigOf CHR ''5'')]\<rparr>"

definition gameData0 :: game_data where
  "gameData0 = \<lparr>endCondition = None, finalScores = None\<rparr>"

definition update0 :: game_state_update where
  "update0 = \<lparr>scores = None, gameTime = None\<rparr>"

text \<open>A connected client with one request pending.\<close>

definition client1 :: client where
  "client1 =
     snd (sendRequest (newClient\<lparr>wsOpen := True, status := CONNECTED\<rparr>) (Some ''get_channels''))"

section \<open>Facts about the map and the storage\<close>

lemma Map_set_keys:
  "set (Map_keys (Map_set k v m)) = insert k (set (Map_keys m))"
  by (induction m) (auto simp: Map_keys_def)

lemma Map_set_distinct:
  "distinct (Map_keys m) \<Longrightarrow> distinct (Map_keys (Map_set k v m))"
proof (induction m)
  case Nil
  then show ?case by (simp add: Map_keys_def)
next
  case (Cons p ps)
  have "set (map fst (Map_set k v ps)) = insert k (set (map fst ps))"
    using Map_set_keys [of k v ps] by (simp add: Map_keys_def)
  with Cons show ?case by (auto simp: Map_keys_def)
qed

lemma Map_size_bound:
  assumes "distinct (Map_keys m)" and "set (Map_keys m) \<subseteq> set ps"
  shows "Map_size m \<le> length ps"
proof -
  have "Map_size m = card (set (Map_keys m))"
    using distinct_card [OF assms(1)] by (simp add: Map_size_def Map_keys_def)
  also have "\<dots> \<le> card (set ps)"
    using assms(2) by (simp add: card_mono)
  also have "\<dots> \<le> length ps" by (rule card_length)
  finally show ?thesis .
qed

lemma getPendingSession_set:
  "getPendingSession (setPendingSession st r p) r' =
     (if r' = r then Some p else getPendingSession st r')"
  by (simp add: getPendingSession_def setPendingSession_def)

section \<open>The run, step by step\<close>

lemma addr_distinct:
  "addrA \<noteq> addrS" "addrA \<noteq> addrX" "addrA \<noteq> addrY" "addrX \<noteq> addrA" "addrX \<noteq> addrY"
  "addrS \<noteq> addrA" "addrY \<noteq> addrA" "addrY \<noteq> addrX"
  by (simp_all add: addrA_def addrS_def addrX_def addrY_def)

lemma addr_nonempty: "addrA \<noteq> []"
  by (simp add: addrA_def)

lemma pending1_fields:
  "signatures pending1 = []"
  "participantA pending1 = addrA"
  "serverAddress pending1 = addrS"
  "serverSignature pending1 = Some (sigOf CHR ''5'')"
  "participants (appDefinition pending1) = [addrA, addrS]"
  "allocations (appSessionData pending1) =
     [\<lparr>participant = Some addrA, asset = ''usdc'', amount = ''0''\<rparr>]"
  "req_id (requestToSign pending1) = 1700000000001"
  by (simp_all add: pending1_def newAppDefinition_def newAppSessionData_def)

lemma store_fields:
  "getPendingSession store0 r = None"
  "getAppSession store0 r = None"
  "getPendingSession store1 ''room-1'' = Some pending1"
  "getPendingSession store2 ''room-1'' = Some (pending1\<lparr>signatures := [(addrA, sigOf CHR ''a'')]\<rparr>)"
  "getPendingSession store3 ''room-1'' =
     Some (pending1\<lparr>signatures := [(addrA, sigOf CHR ''a''), (addrX, sigOf CHR ''b'')]\<rparr>)"
  "getAppSession store4 ''room-1'' = Some session1"
  "getPendingSession store4 ''room-1'' = None"
  by (simp_all add: getPendingSession_def getAppSession_def store0_def store1_def store2_def
      store3_def store4_def)

lemma env0_fields:
  "getAddress env0 addrA = Some addrA"
  "getAddress env0 addrX = Some addrX"
  "getAddress env0 addrY = Some addrY"
  "getAddress env0 addrS = Some addrS"
  "getAddress env0 ''player'' = None"
  "rpcClient env0 = Some \<lparr>sessionKey = Some addrS, readyState = Some 1\<rparr>"
  "readyStateAtSend env0 = Some 1"
  "inbound env0 = []"
  "createCloseAppSessionMessage env0 d = Some ''close''"
  "createSubmitAppStateMessage env0 sd = Some ''state''"
  by (simp_all add: env0_def addrA_def addrS_def addrX_def addrY_def)

lemma run_generate:
  "generateAppSessionMessage env0 store0 ''room-1'' addrA =
     (Inr \<lparr>p_appSessionData = appSessionData pending1,
           p_appDefinition = appDefinition pending1,
           p_participants = [addrA, addrS],
           p_requestToSign = requestToSign pending1\<rparr>, store1)"
  by (simp add: generateAppSessionMessage_def env0_def store0_def store1_def pending1_def
      getPendingSession_def setPendingSession_def ensureConnected_def Let_def)

lemma run_sign_A:
  "addAppSessionSignature env0 store1 ''room-1'' addrA (Some (sigOf CHR ''a'')) =
     (Inr False, store2)"
  by (simp add: addAppSessionSignature_def env0_def store0_def store1_def store2_def
      getPendingSession_def setPendingSession_def Map_size_def sigOf_def Let_def pending1_fields)

lemma run_sign_X:
  "addAppSessionSignature env0 store2 ''room-1'' addrX (Some (sigOf CHR ''b'')) =
     (Inr True, store3)"
  by (simp add: addAppSessionSignature_def env0_def store0_def store3_def store2_def
      getPendingSession_def setPendingSession_def Map_size_def sigOf_def Let_def addr_distinct)

lemma run_sign_Y:
  "addAppSessionSignature env0 store3 ''room-1'' addrY (Some (sigOf CHR ''c'')) =
     (Inr False,
      store0\<lparr>pendingAppSessions := [''room-1'' \<mapsto> pending1\<lparr>signatures :=
        [(addrA, sigOf CHR ''a''), (addrX, sigOf CHR ''b''), (addrY, sigOf CHR ''c'')]\<rparr>]\<rparr>)"
  by (simp add: addAppSessionSignature_def env0_fields sigOf_def Let_def getPendingSession_def
      setPendingSession_def store3_def store0_def Map_size_def addr_distinct)

lemma run_create_early:
  "createAppSessionWithSignatures env0 store2 ''room-1'' =
     (Inl (NotAllSignatures 1), store2, [])"
  by (simp add: createAppSessionWithSignatures_def store2_def store0_def getPendingSession_def
      Map_size_def)

lemma run_create_timeout:
  "createAppSessionWithSignatures env0 store3 ''room-1'' = (Inl Timeout, store3, [envelope1])"
  by (simp add: createAppSessionWithSignatures_def store_fields Map_size_def env0_fields
      ensureConnected_def pending1_fields envelopeSignatures_def Map_get_def participantB_def
      envelope1_def Let_def)

lemma run_create_rejected:
  "createAppSessionWithSignatures envRejected store3 ''room-1'' =
     (Inl (LedgerRejected ''rejected''), store3, [envelope1])"
  by (simp add: createAppSessionWithSignatures_def store_fields Map_size_def env0_fields
      ensureConnected_def pending1_fields envelopeSignatures_def Map_get_def participantB_def
      envelope1_def envRejected_def Let_def)

lemma run_create_ack:
  "createAppSessionWithSignatures envAck store3 ''room-1'' = (Inr ''S1'', store4, [envelope1])"
  by (simp add: createAppSessionWithSignatures_def store3_def store0_def store4_def
      getPendingSession_def Map_size_def env0_def ensureConnected_def ackS1_def js_or_def
      pending1_fields envelopeSignatures_def Map_get_def participantB_def setAppSession_def
      deletePendingSession_def newAppSession_def session1_def envelope1_def envAck_def Let_def)

lemma run_submit_timeout:
  "submitAppState_try env0 session1 update0 = (Inl Timeout, [''state''])"
  by (simp add: submitAppState_try_def env0_fields ensureConnected_def)

lemma run_close_tie:
  "closeAppSession envCloseAck store4 ''room-1'' None gameData0 = (Inr (), store0, [''close''])"
  by (simp add: closeAppSession_def store_fields env0_fields ensureConnected_def formatWinner_def
      closeData_def finalSessionData_def payout_def session1_def closeAllocations_def
      sampleMovesThrow_def deleteAppSession_def store4_def store0_def getAppSession_def js_or_def
      gameData0_def envCloseAck_def)

lemma client1_fields:
  "pendingRequests client1 = [1]" "settled client1 = []" "status client1 = CONNECTED"
  by (simp_all add: client1_def sendRequest_def newClient_def Let_def)

lemma envelopeSignatures_length: "length (envelopeSignatures pending) = 3"
  by (simp add: envelopeSignatures_def Let_def)

section \<open>The signature map under a sequence of calls\<close>

lemma sig_inv_step:
  assumes "sig_inv d st roomId"
    and "\<And>fa. getAddress env a = Some fa \<Longrightarrow> fa \<in> set (participants d)"
  shows "sig_inv d (snd (addAppSessionSignature env st roomId a s)) roomId"
proof -
  from assms(1) obtain p where p: "getPendingSession st roomId = Some p"
    "appDefinition p = d" "distinct (Map_keys (signatures p))"
    "set (Map_keys (signatures p)) \<subseteq> set (participants d)"
    by (auto simp: sig_inv_def split: option.splits)
  show ?thesis
  proof (cases "getAddress env a")
    case None
    then show ?thesis using assms(1) p(1) by (simp add: addAppSessionSignature_def)
  next
    case (Some fa)
    then have fa: "fa \<in> set (participants d)" by (rule assms(2))
    show ?thesis
    proof (cases "\<exists>sg. s = Some sg \<and> sg \<noteq> [] \<and> take 2 sg = ''0x''")
      case False
      then have "snd (addAppSessionSignature env st roomId a s) = st"
        using p(1) Some by (auto simp: addAppSessionSignature_def split: option.splits)
      then show ?thesis using assms(1) by simp
    next
      case True
      then obtain sg where sg: "s = Some sg" "sg \<noteq> []" "take 2 sg = ''0x''" by blast
      have "snd (addAppSessionSignature env st roomId a s) =
              setPendingSession st roomId (p\<lparr>signatures := Map_set fa sg (signatures p)\<rparr>)"
        using p(1) Some sg by (simp add: addAppSessionSignature_def Let_def)
      then show ?thesis
        using p fa
        by (simp add: sig_inv_def getPendingSession_set Map_set_keys Map_set_distinct)
    qed
  qed
qed

lemma sig_inv_all:
  assumes "sig_inv d st roomId"
    and "\<forall>(a, s) \<in> set calls. \<forall>fa. getAddress env a = Some fa \<longrightarrow> fa \<in> set (participants d)"
  shows "sig_inv d (addSignatures env st roomId calls) roomId"
  using assms
proof (induction calls arbitrary: st)
  case Nil
  then show ?case by simp
next
  case (Cons c calls)
  obtain a s where c: "c = (a, s)" by (cases c)
  have "sig_inv d (snd (addAppSessionSignature env st roomId a s)) roomId"
    using Cons.prems c by (intro sig_inv_step) auto
  then show ?case using Cons c by simp
qed

lemma generateAppSessionMessage_twice:
  assumes "generateAppSessionMessage env st roomId a = (Inr prop, st')"
    and "getAddress env' a' = Some fa'"
  shows "generateAppSessionMessage env' st' roomId a' = (Inr prop, st')"
  using assms
  by (auto simp: generateAppSessionMessage_def getPendingSession_def setPendingSession_def Let_def
      split: option.splits if_splits)

section \<open>The claims\<close>

text \<open>
  Claim C1: the number of player signatures required before assembly is the length of
  the proposal's participant list minus one. The code requires two. In the run, the
  proposal for one player lists the player and the server, so one player signature is
  the required count; with that one signature stored, \<open>addAppSessionSignature\<close> returns
  false and \<open>createAppSessionWithSignatures\<close> throws \<open>Not all signatures collected (have 1/2)\<close>.
\<close>

theorem required_signature_count_is_two:
  "generateAppSessionMessage env0 store0 ''room-1'' addrA =
     (Inr \<lparr>p_appSessionData = appSessionData pending1,
           p_appDefinition = appDefinition pending1,
           p_participants = [addrA, addrS],
           p_requestToSign = requestToSign pending1\<rparr>, store1) \<and>
   length [addrA, addrS] - 1 = (1::nat) \<and>
   addAppSessionSignature env0 store1 ''room-1'' addrA (Some (sigOf CHR ''a'')) =
     (Inr False, store2) \<and>
   getPendingSession store2 ''room-1'' =
     Some (pending1\<lparr>signatures := [(addrA, sigOf CHR ''a'')]\<rparr>) \<and>
   Map_size [(addrA, sigOf CHR ''a'')] = 1 \<and>
   createAppSessionWithSignatures env0 store2 ''room-1'' =
     (Inl (NotAllSignatures 1), store2, [])"
  by (simp add: run_generate run_sign_A run_create_early store_fields Map_size_def)

text \<open>
  Claim C2: \<open>closeAppSession\<close> gives the winner the entire pot and, on a tie, returns
  each participant's contribution. In the code both allocation arrays are empty, and
  with the session's player as the winner the function throws on the read of \<open>totalPot\<close>
  before any allocation is built: nothing is sent and the session stays stored.
\<close>

theorem closeAppSession_allocation_missing:
  "closeAppSession env0 store4 ''room-1'' (Some addrA) gameData0 =
     (Inl (ReferenceError ''totalPot''), store4, []) \<and>
   (case closeData env0 session1 None gameData0 of
      Inl er \<Rightarrow> False
    | Inr cd \<Rightarrow> c_allocations cd = []) \<and>
   closeAllocations None = [] \<and>
   closeAllocations (Some addrA) = []"
  by (simp add: closeAppSession_def store_fields env0_fields ensureConnected_def formatWinner_def
      closeData_def finalSessionData_def payout_def session1_def closeAllocations_def
      addr_nonempty)

text \<open>
  Claim C3: the signature list of the envelope is the player signatures in the order of
  the definition's participants, then the server's, with no extra entry. In the run
  the definition lists two participants, and the envelope that is sent carries three
  entries, the second one \<open>undefined\<close>.
\<close>

theorem envelope_has_three_signatures:
  "createAppSessionWithSignatures envAck store3 ''room-1'' = (Inr ''S1'', store4, [envelope1]) \<and>
   e_sig envelope1 = [Some (sigOf CHR ''a''), None, Some (sigOf CHR ''5'')] \<and>
   getPendingSession store3 ''room-1'' =
     Some (pending1\<lparr>signatures := [(addrA, sigOf CHR ''a''), (addrX, sigOf CHR ''b'')]\<rparr>) \<and>
   participants (appDefinition pending1) = [addrA, addrS]"
  by (simp add: run_create_ack store_fields pending1_fields envelope1_def)

text \<open>
  Claim C4: a malformed signature, of the wrong length or without the \<open>0x\<close> prefix, is
  rejected and leaves the map unchanged. A signature with the prefix and the wrong
  length is stored: here one of six characters, in a map that was empty.
\<close>

theorem wrong_length_signature_is_stored:
  "getPendingSession store1 ''room-1'' = Some pending1 \<and>
   signatures pending1 = [] \<and>
   length ''0x1234'' = 6 \<and>
   getPendingSession
     (snd (addAppSessionSignature env0 store1 ''room-1'' addrA (Some ''0x1234''))) ''room-1'' =
     Some (pending1\<lparr>signatures := [(addrA, ''0x1234'')]\<rparr>)"
  by (simp add: addAppSessionSignature_def store_fields env0_fields Let_def pending1_fields
      getPendingSession_set)

text \<open>
  Claim C4, as the code has it: a signature that is not a string, is empty or lacks the
  \<open>0x\<close> prefix is rejected and the store is unchanged: the call throws when the room
  has a pending session and the address is malformed, and returns false in every other
  case. A signature with the prefix is stored under the canonical address whatever its
  length.
\<close>

theorem addAppSessionSignature_prefix_check:
  "(sg = None \<or> (\<exists>s. sg = Some s \<and> take 2 s \<noteq> ''0x'') \<longrightarrow>
      addAppSessionSignature env st roomId a sg =
        (if getPendingSession st roomId \<noteq> None \<and> getAddress env a = None
         then Inl InvalidAddress else Inr False, st)) \<and>
   (getPendingSession st roomId = Some p \<and> getAddress env a = Some fa \<and> take 2 s' = ''0x'' \<longrightarrow>
      addAppSessionSignature env st roomId a (Some s') =
        (Inr (Map_size (Map_set fa s' (signatures p)) = 2),
         setPendingSession st roomId (p\<lparr>signatures := Map_set fa s' (signatures p)\<rparr>)))"
  by (auto simp: addAppSessionSignature_def Let_def split: option.splits)

theorem addAppSessionSignature_prefix_check_witness:
  "addAppSessionSignature env0 store1 ''room-1'' addrA (Some ''5aAeb605'') = (Inr False, store1) \<and>
   addAppSessionSignature env0 store1 ''room-1'' ''player'' (Some ''5aAeb605'') =
     (Inl InvalidAddress, store1) \<and>
   addAppSessionSignature env0 store1 ''room-1'' addrA None = (Inr False, store1) \<and>
   addAppSessionSignature env0 store1 ''room-1'' addrA (Some ''0x1234'') =
     (Inr False,
      setPendingSession store1 ''room-1'' (pending1\<lparr>signatures := [(addrA, ''0x1234'')]\<rparr>))"
  using addAppSessionSignature_prefix_check [where sg = "Some ''5aAeb605''" and env = env0
      and st = store1 and roomId = "''room-1''" and a = addrA and p = pending1 and fa = addrA
      and s' = "''0x1234''"]
    addAppSessionSignature_prefix_check [where sg = "Some ''5aAeb605''" and env = env0
      and st = store1 and roomId = "''room-1''" and a = "''player''" and p = pending1
      and fa = addrA and s' = "''0x1234''"]
    addAppSessionSignature_prefix_check [where sg = None and env = env0
      and st = store1 and roomId = "''room-1''" and a = addrA and p = pending1 and fa = addrA
      and s' = "''0x1234''"]
  by (simp add: store_fields env0_fields pending1_fields Map_size_def)

text \<open>
  Claim C5: the number of collected signatures never exceeds the number of participants
  of the definition, whoever calls. The address of a caller is not compared with the
  participants: after three callers the map of the run holds three signatures for a
  definition of two participants.
\<close>

theorem third_signer_exceeds_participants:
  "getPendingSession
     (addSignatures env0 store1 ''room-1''
        [(addrA, Some (sigOf CHR ''a'')), (addrX, Some (sigOf CHR ''b'')),
         (addrY, Some (sigOf CHR ''c''))]) ''room-1'' =
     Some (pending1\<lparr>signatures :=
        [(addrA, sigOf CHR ''a''), (addrX, sigOf CHR ''b''), (addrY, sigOf CHR ''c'')]\<rparr>) \<and>
   Map_size [(addrA, sigOf CHR ''a''), (addrX, sigOf CHR ''b''), (addrY, sigOf CHR ''c'')] = 3 \<and>
   length (participants (appDefinition pending1)) = 2"
  by (simp add: run_sign_A run_sign_X run_sign_Y getPendingSession_def Map_size_def
      pending1_fields)

text \<open>
  Claim C5, as the code has it: for a pending session whose stored keys are participants
  of its definition, and a sequence of calls in which every caller's canonical address
  is a participant, the session stays pending with the same definition and the number of
  collected signatures does not exceed the number of participants.
\<close>

theorem signature_count_bounded_for_participants:
  assumes "getPendingSession st roomId = Some p"
    and "distinct (Map_keys (signatures p))"
    and "set (Map_keys (signatures p)) \<subseteq> set (participants (appDefinition p))"
    and "\<forall>(a, s) \<in> set calls. \<forall>fa. getAddress env a = Some fa \<longrightarrow>
           fa \<in> set (participants (appDefinition p))"
  shows "\<exists>p'. getPendingSession (addSignatures env st roomId calls) roomId = Some p' \<and>
              appDefinition p' = appDefinition p \<and>
              Map_size (signatures p') \<le> length (participants (appDefinition p'))"
proof -
  have "sig_inv (appDefinition p) st roomId"
    using assms(1-3) by (simp add: sig_inv_def)
  then have "sig_inv (appDefinition p) (addSignatures env st roomId calls) roomId"
    using assms(4) by (rule sig_inv_all)
  then show ?thesis
    by (auto simp: sig_inv_def Map_size_bound split: option.splits)
qed

theorem signature_count_bounded_for_participants_witness:
  "\<exists>p'. getPendingSession
          (addSignatures env0 store1 ''room-1''
             [(addrA, Some (sigOf CHR ''a'')), (addrS, Some (sigOf CHR ''5'')),
              (''player'', Some (sigOf CHR ''b'')), (addrA, Some (sigOf CHR ''c''))])
          ''room-1'' = Some p' \<and>
        appDefinition p' = appDefinition pending1 \<and>
        Map_size (signatures p') \<le> length (participants (appDefinition p'))"
  using signature_count_bounded_for_participants [of store1 "''room-1''" pending1
      "[(addrA, Some (sigOf CHR ''a'')), (addrS, Some (sigOf CHR ''5'')),
        (''player'', Some (sigOf CHR ''b'')), (addrA, Some (sigOf CHR ''c''))]" env0]
  by (simp add: store_fields env0_fields pending1_fields Map_keys_def)

text \<open>
  Claim C6: a call of \<open>generateAppSessionMessage\<close> for a room that has a pending
  session returns what is stored, the same definition, nonce and request tuple, and
  stores nothing: whatever the clock reads, no second nonce is taken. The address
  passed is canonicalised before the lookup, so it has to be a well-formed address.
\<close>

theorem generateAppSessionMessage_reuses_pending:
  assumes "getPendingSession st roomId = Some pending" and "getAddress env a = Some fa"
  shows "generateAppSessionMessage env st roomId a =
           (Inr \<lparr>p_appSessionData = appSessionData pending,
                 p_appDefinition = appDefinition pending,
                 p_participants = [participantA pending, serverAddress pending],
                 p_requestToSign = requestToSign pending\<rparr>, st)"
  using assms by (simp add: generateAppSessionMessage_def)

theorem generateAppSessionMessage_reuses_pending_witness:
  "getPendingSession store1 ''room-1'' = Some pending1 \<and>
   getAddress envLater addrA = Some addrA \<and>
   generateAppSessionMessage envLater store1 ''room-1'' addrA =
     (Inr \<lparr>p_appSessionData = appSessionData pending1,
           p_appDefinition = appDefinition pending1,
           p_participants = [addrA, addrS],
           p_requestToSign = requestToSign pending1\<rparr>, store1) \<and>
   generateAppSessionMessage envLater store1 ''room-1'' addrA =
     generateAppSessionMessage env0 store0 ''room-1'' addrA"
  using generateAppSessionMessage_reuses_pending [of store1 "''room-1''" pending1 envLater addrA addrA]
  by (simp add: store_fields env0_fields pending1_fields envLater_def run_generate)

text \<open>
  Claim C7: when the submission of \<open>createAppSessionWithSignatures\<close> fails, by the 30 s
  timeout or by an error frame of the service (or in any other way), the store is as it
  was, so the pending session with its signatures and nonce is intact; the pending entry
  is gone only when the function returned a session id, which it took from an
  acknowledgment of \<open>create_app_session\<close>.
\<close>

theorem createAppSessionWithSignatures_failure_keeps_pending:
  assumes "createAppSessionWithSignatures env st roomId = (res, st', sent)"
  shows "case res of
           Inl er \<Rightarrow> st' = st
         | Inr sid \<Rightarrow>
             (\<exists>response. awaitResponse ''create_app_session'' (inbound env) = Inr (Some response) \<and>
                js_or (app_session_id response) (ack_appSessionId response) = Some sid) \<and>
             getPendingSession st' roomId = None"
  using assms
  by (auto simp: createAppSessionWithSignatures_def Let_def getPendingSession_def
      deletePendingSession_def setAppSession_def
      split: option.splits if_splits sum.splits list.splits)

theorem createAppSessionWithSignatures_failure_keeps_pending_witness:
  "fst (createAppSessionWithSignatures env0 store3 ''room-1'') = Inl Timeout \<and>
   fst (snd (createAppSessionWithSignatures env0 store3 ''room-1'')) = store3 \<and>
   fst (createAppSessionWithSignatures envRejected store3 ''room-1'') =
     Inl (LedgerRejected ''rejected'') \<and>
   fst (snd (createAppSessionWithSignatures envRejected store3 ''room-1'')) = store3 \<and>
   fst (createAppSessionWithSignatures envAck store3 ''room-1'') = Inr ''S1'' \<and>
   getPendingSession (fst (snd (createAppSessionWithSignatures envAck store3 ''room-1'')))
     ''room-1'' = None"
proof -
  have t: "createAppSessionWithSignatures env0 store3 ''room-1'' =
      (Inl Timeout, fst (snd (createAppSessionWithSignatures env0 store3 ''room-1'')),
       snd (snd (createAppSessionWithSignatures env0 store3 ''room-1'')))"
    by (simp add: run_create_timeout)
  have r: "createAppSessionWithSignatures envRejected store3 ''room-1'' =
      (Inl (LedgerRejected ''rejected''),
       fst (snd (createAppSessionWithSignatures envRejected store3 ''room-1'')),
       snd (snd (createAppSessionWithSignatures envRejected store3 ''room-1'')))"
    by (simp add: run_create_rejected)
  have a: "createAppSessionWithSignatures envAck store3 ''room-1'' =
      (Inr ''S1'', fst (snd (createAppSessionWithSignatures envAck store3 ''room-1'')),
       snd (snd (createAppSessionWithSignatures envAck store3 ''room-1'')))"
    by (simp add: run_create_ack)
  have "fst (snd (createAppSessionWithSignatures env0 store3 ''room-1'')) = store3"
    using createAppSessionWithSignatures_failure_keeps_pending [OF t] by simp
  moreover have "fst (snd (createAppSessionWithSignatures envRejected store3 ''room-1'')) = store3"
    using createAppSessionWithSignatures_failure_keeps_pending [OF r] by simp
  moreover have "getPendingSession
      (fst (snd (createAppSessionWithSignatures envAck store3 ''room-1''))) ''room-1'' = None"
    using createAppSessionWithSignatures_failure_keeps_pending [OF a] by simp
  ultimately show ?thesis
    by (simp add: run_create_timeout run_create_rejected run_create_ack)
qed

text \<open>
  Claim C8: \<open>submitAppState\<close> never throws, whatever fails in it (no client, no
  connection, a signing error, a closed socket, an error frame, the timeout), and it
  leaves the session store as it was.
\<close>

theorem submitAppState_never_throws:
  "fst (submitAppState env st roomId gameStateUpdate) = Inr () \<and>
   fst (snd (submitAppState env st roomId gameStateUpdate)) = st"
  by (auto simp: submitAppState_def split: option.splits sum.splits prod.splits)

text \<open>
  Claim C9: when the connection closes, every pending request is rejected at once. The
  listener of the close event only sets the status: in the run the request sent before
  the close is still pending after it and no promise has been settled.
\<close>

theorem close_leaves_request_pending:
  "pendingRequests client1 = [1] \<and> pendingRequests (onClose client1) = [1] \<and>
   settled (onClose client1) = []"
  by (simp add: onClose_def setStatus_def client1_fields)

text \<open>
  Claim C9, as the code has it: the close of the connection sets the status to
  \<open>DISCONNECTED\<close> and leaves every pending request registered and unsettled; a request
  that is pending is rejected and removed when its own timer fires.
\<close>

theorem onClose_keeps_pending_requests:
  "pendingRequests (onClose c) = pendingRequests c \<and> settled (onClose c) = settled c \<and>
   status (onClose c) = DISCONNECTED \<and>
   (requestId \<in> set (pendingRequests c) \<longrightarrow>
      settled (onTimeout (onClose c) requestId) =
        settled c @ [(requestId, Rejected ''Request timeout'')] \<and>
      requestId \<notin> set (pendingRequests (onTimeout (onClose c) requestId)))"
  by (simp add: onClose_def setStatus_def onTimeout_def)

theorem onClose_keeps_pending_requests_witness:
  "1 \<in> set (pendingRequests client1) \<and>
   pendingRequests (onClose client1) = [1] \<and>
   status (onClose client1) = DISCONNECTED \<and>
   settled (onTimeout (onClose client1) 1) = [(1, Rejected ''Request timeout'')] \<and>
   pendingRequests (onTimeout (onClose client1) 1) = []"
  using onClose_keeps_pending_requests [of client1 1]
  by (simp add: client1_fields onTimeout_def)

text \<open>
  Claim C10: for a room without a stored session \<open>closeAppSession\<close> returns without
  throwing, sends nothing and leaves the store as it was.
\<close>

theorem closeAppSession_without_session:
  assumes "getAppSession st roomId = None"
  shows "closeAppSession env st roomId winnerEOA gameData = (Inr (), st, [])"
  using assms by (simp add: closeAppSession_def)

theorem closeAppSession_without_session_witness:
  "getAppSession store0 ''room-1'' = None \<and>
   closeAppSession env0 store0 ''room-1'' (Some addrA) gameData0 = (Inr (), store0, [])"
  using closeAppSession_without_session [of store0 "''room-1''" env0 "Some addrA" gameData0]
  by (simp add: store_fields)

end
